theory Spec2Isabelle
  imports Complex_Main
begin

section \<open>Floating-point values of the script\<close>

text \<open>
  The script computes with Python floats and numpy float64 scalars and arrays. A value is
  a finite number, one of the two infinities, or NaN. Arithmetic on finite values is taken
  as exact arithmetic on the reals: rounding, overflow and underflow are left out, and
  \<open>-0.0\<close> is the same value as \<open>0.0\<close> (the two compare equal in Python). The
  infinities and NaN follow IEEE 754, which is what Python and numpy do: NaN propagates
  through every operation, \<open>inf - inf\<close>, \<open>0 * inf\<close>, \<open>inf / inf\<close> and
  \<open>0 / 0\<close> are NaN, and every comparison with NaN except \<open>!=\<close> is false.

  A double rounds and overflows where a real does not: \<open>sin\<close> of 30 degrees is
  0.49999999999999994, and \<open>2 * pi / wavelength\<close> is infinite for a wavelength of
  \<open>2 ** -1030\<close>. The theorems are stated with that in mind. They are identities
  between the expressions the code evaluates, properties that hold of every value an
  operation can give, and evaluations at inputs whose intermediate values doubles hold
  exactly; none of them derives that a result is finite from the inputs being finite.
\<close>

datatype pyfloat = Fin real | PInf | NInf | NaN

text \<open>The exceptions the script can raise once its five inputs are parsed.\<close>

datatype pyerror = ZeroDivisionError | ValueError

text \<open>
  The one line the script prints besides its prompts, in both \<open>except\<close> clauses of
  \<open>calculate_grating_parameters\<close>: "Error:" followed by a Russian sentence saying
  that the Bragg angle cannot be computed for the given parameters.
\<close>

datatype message = Bragg_angle_error

text \<open>The infinity with the sign of \<open>a\<close>; NaN when \<open>a\<close> is zero.\<close>

definition signed_inf :: "real \<Rightarrow> pyfloat" where
  "signed_inf a = (if a = 0 then NaN else if 0 < a then PInf else NInf)"

fun fneg :: "pyfloat \<Rightarrow> pyfloat" where
  "fneg (Fin a) = Fin (- a)"
| "fneg PInf = NInf"
| "fneg NInf = PInf"
| "fneg NaN = NaN"

fun fadd :: "pyfloat \<Rightarrow> pyfloat \<Rightarrow> pyfloat" where
  "fadd (Fin a) (Fin b) = Fin (a + b)"
| "fadd (Fin a) PInf = PInf"
| "fadd (Fin a) NInf = NInf"
| "fadd PInf (Fin b) = PInf"
| "fadd NInf (Fin b) = NInf"
| "fadd PInf PInf = PInf"
| "fadd NInf NInf = NInf"
| "fadd PInf NInf = NaN"
| "fadd NInf PInf = NaN"
| "fadd NaN y = NaN"
| "fadd x NaN = NaN"

definition fsub :: "pyfloat \<Rightarrow> pyfloat \<Rightarrow> pyfloat" where
  "fsub x y = fadd x (fneg y)"

fun fmul :: "pyfloat \<Rightarrow> pyfloat \<Rightarrow> pyfloat" where
  "fmul (Fin a) (Fin b) = Fin (a * b)"
| "fmul (Fin a) PInf = signed_inf a"
| "fmul (Fin a) NInf = signed_inf (- a)"
| "fmul PInf (Fin b) = signed_inf b"
| "fmul NInf (Fin b) = signed_inf (- b)"
| "fmul PInf PInf = PInf"
| "fmul NInf NInf = PInf"
| "fmul PInf NInf = NInf"
| "fmul NInf PInf = NInf"
| "fmul NaN y = NaN"
| "fmul x NaN = NaN"

text \<open>
  Division where an operand is a numpy scalar: a zero divisor gives an infinity or NaN
  (and a RuntimeWarning), never an exception. With one zero only, the infinity has the
  sign of the dividend.
\<close>

fun np_divide :: "pyfloat \<Rightarrow> pyfloat \<Rightarrow> pyfloat" where
  "np_divide (Fin a) (Fin b) = (if b = 0 then signed_inf a else Fin (a / b))"
| "np_divide (Fin a) PInf = Fin 0"
| "np_divide (Fin a) NInf = Fin 0"
| "np_divide PInf (Fin b) = (if b < 0 then NInf else PInf)"
| "np_divide NInf (Fin b) = (if b < 0 then PInf else NInf)"
| "np_divide PInf PInf = NaN"
| "np_divide PInf NInf = NaN"
| "np_divide NInf PInf = NaN"
| "np_divide NInf NInf = NaN"
| "np_divide NaN y = NaN"
| "np_divide x NaN = NaN"

text \<open>
  Division of one Python float by another: a zero divisor raises ZeroDivisionError;
  otherwise the quotient is the IEEE one.
\<close>

definition py_truediv :: "pyfloat \<Rightarrow> pyfloat \<Rightarrow> pyerror + pyfloat" where
  "py_truediv x y = (if y = Fin 0 then Inl ZeroDivisionError else Inr (np_divide x y))"

fun np_abs :: "pyfloat \<Rightarrow> pyfloat" where
  "np_abs (Fin a) = Fin \<bar>a\<bar>"
| "np_abs PInf = PInf"
| "np_abs NInf = PInf"
| "np_abs NaN = NaN"

fun np_sqrt :: "pyfloat \<Rightarrow> pyfloat" where
  "np_sqrt (Fin a) = (if a < 0 then NaN else Fin (sqrt a))"
| "np_sqrt PInf = PInf"
| "np_sqrt NInf = NaN"
| "np_sqrt NaN = NaN"

fun np_sin :: "pyfloat \<Rightarrow> pyfloat" where
  "np_sin (Fin a) = Fin (sin a)"
| "np_sin PInf = NaN"
| "np_sin NInf = NaN"
| "np_sin NaN = NaN"

fun np_cos :: "pyfloat \<Rightarrow> pyfloat" where
  "np_cos (Fin a) = Fin (cos a)"
| "np_cos PInf = NaN"
| "np_cos NInf = NaN"
| "np_cos NaN = NaN"

text \<open>
  \<open>np.arcsin\<close> of an argument outside \<open>[-1, 1]\<close> is NaN, with a RuntimeWarning
  ("invalid value encountered in arcsin"); numpy raises no exception there.
\<close>

fun np_arcsin :: "pyfloat \<Rightarrow> pyfloat" where
  "np_arcsin (Fin a) = (if \<bar>a\<bar> \<le> 1 then Fin (arcsin a) else NaN)"
| "np_arcsin PInf = NaN"
| "np_arcsin NInf = NaN"
| "np_arcsin NaN = NaN"

definition np_deg2rad :: "pyfloat \<Rightarrow> pyfloat" where
  "np_deg2rad x = fmul x (Fin (pi / 180))"

definition np_rad2deg :: "pyfloat \<Rightarrow> pyfloat" where
  "np_rad2deg x = fmul x (Fin (180 / pi))"

text \<open>\<open>np.degrees\<close> is the same function as \<open>np.rad2deg\<close>.\<close>

definition np_degrees :: "pyfloat \<Rightarrow> pyfloat" where
  "np_degrees x = np_rad2deg x"

text \<open>\<open>x ** 2\<close>\<close>

definition square :: "pyfloat \<Rightarrow> pyfloat" where
  "square x = fmul x x"

text \<open>The comparisons \<open>x <= y\<close> and \<open>x < y\<close>: false as soon as one side is NaN.\<close>

fun fle :: "pyfloat \<Rightarrow> pyfloat \<Rightarrow> bool" where
  "fle (Fin a) (Fin b) = (a \<le> b)"
| "fle (Fin a) PInf = True"
| "fle (Fin a) NInf = False"
| "fle PInf (Fin b) = False"
| "fle NInf (Fin b) = True"
| "fle PInf PInf = True"
| "fle NInf NInf = True"
| "fle PInf NInf = False"
| "fle NInf PInf = True"
| "fle NaN y = False"
| "fle x NaN = False"

definition flt :: "pyfloat \<Rightarrow> pyfloat \<Rightarrow> bool" where
  "flt x y = (fle x y \<and> x \<noteq> y)"

fun is_finite :: "pyfloat \<Rightarrow> bool" where
  "is_finite (Fin a) = True"
| "is_finite PInf = False"
| "is_finite NInf = False"
| "is_finite NaN = False"

section \<open>Interference intensity (\<open>calculate_intensity\<close>)\<close>

text \<open>
  \<open>X\<close> and \<open>Y\<close> are two-dimensional numpy arrays, as \<open>np.meshgrid\<close> returns them:
  a number of rows, a number of columns (either may be 0) and the entry at each index.
  Only the entries at indices inside the shape belong to the array.
\<close>

record array2 =
  nrows :: nat
  ncols :: nat
  entry :: "nat \<Rightarrow> nat \<Rightarrow> pyfloat"

definition shape :: "array2 \<Rightarrow> nat \<times> nat" where
  "shape A = (nrows A, ncols A)"

text \<open>A scalar times an array, and a function applied to every entry.\<close>

definition arr_scale :: "pyfloat \<Rightarrow> array2 \<Rightarrow> array2" where
  "arr_scale c A = \<lparr>nrows = nrows A, ncols = ncols A, entry = (\<lambda>i j. fmul c (entry A i j))\<rparr>"

definition arr_map :: "(pyfloat \<Rightarrow> pyfloat) \<Rightarrow> array2 \<Rightarrow> array2" where
  "arr_map f A = \<lparr>nrows = nrows A, ncols = ncols A, entry = (\<lambda>i j. f (entry A i j))\<rparr>"

text \<open>
  numpy's broadcasting of two arrays. Along each axis the two lengths must be equal, or one
  of them must be 1; the result has the other length, and the array of length 1 is read
  at index 0 throughout. Otherwise the operation raises ValueError ("operands could not
  be broadcast together").
\<close>

definition broadcast_dim :: "nat \<Rightarrow> nat \<Rightarrow> nat option" where
  "broadcast_dim a b =
     (if a = b then Some a else if a = 1 then Some b else if b = 1 then Some a else None)"

definition broadcast_index :: "nat \<Rightarrow> nat \<Rightarrow> nat" where
  "broadcast_index a i = (if a = 1 then 0 else i)"

definition elementwise ::
  "(pyfloat \<Rightarrow> pyfloat \<Rightarrow> pyfloat) \<Rightarrow> array2 \<Rightarrow> array2 \<Rightarrow> nat \<Rightarrow> nat \<Rightarrow> array2" where
  "elementwise f A B m n =
     \<lparr>nrows = m, ncols = n,
      entry = (\<lambda>i j. f (entry A (broadcast_index (nrows A) i) (broadcast_index (ncols A) j))
                        (entry B (broadcast_index (nrows B) i) (broadcast_index (ncols B) j)))\<rparr>"

definition arr_add :: "array2 \<Rightarrow> array2 \<Rightarrow> pyerror + array2" where
  "arr_add A B =
     (case broadcast_dim (nrows A) (nrows B) of
        None \<Rightarrow> Inl ValueError
      | Some m \<Rightarrow>
          (case broadcast_dim (ncols A) (ncols B) of
             None \<Rightarrow> Inl ValueError
           | Some n \<Rightarrow> Inr (elementwise fadd A B m n)))"

text \<open>
  Lines 18 to 29: the wave number \<open>k = 2 * np.pi / wavelength\<close> is a quotient of two
  Python floats; the four components are numpy scalars.
\<close>

definition phase_diff ::
  "array2 \<Rightarrow> array2 \<Rightarrow> pyfloat \<Rightarrow> pyfloat \<Rightarrow> pyfloat \<Rightarrow> pyerror + array2" where
  "phase_diff X Y wavelength theta_R theta_S =
     (let theta_R_rad = np_deg2rad theta_R;
          theta_S_rad = np_deg2rad theta_S
      in case py_truediv (fmul (Fin 2) (Fin pi)) wavelength of
           Inl e \<Rightarrow> Inl e
         | Inr k \<Rightarrow>
             (let k_Rx = fmul k (np_sin theta_R_rad);
                  k_Rz = fmul k (np_cos theta_R_rad);
                  k_Sx = fmul k (np_sin theta_S_rad);
                  k_Sz = fmul k (np_cos theta_S_rad)
              in arr_add (arr_scale (fsub k_Rx k_Sx) X) (arr_scale (fsub k_Rz k_Sz) Y)))"

text \<open>Lines 32 to 34.\<close>

definition calculate_intensity ::
  "array2 \<Rightarrow> array2 \<Rightarrow> pyfloat \<Rightarrow> pyfloat \<Rightarrow> pyfloat \<Rightarrow> pyerror + array2" where
  "calculate_intensity X Y wavelength theta_R theta_S =
     (case phase_diff X Y wavelength theta_R theta_S of
        Inl e \<Rightarrow> Inl e
      | Inr ph \<Rightarrow> Inr (arr_map (\<lambda>c. square (fadd c (Fin 1))) (arr_map np_cos ph)))"

section \<open>Grating parameters (\<open>calculate_grating_parameters\<close>)\<close>

record grating_params =
  period :: pyfloat
  period_y :: pyfloat
  period_z :: pyfloat
  frequency :: pyfloat
  frequency_y :: pyfloat
  frequency_z :: pyfloat
  tilt_angle :: pyfloat
  bragg_angle :: pyfloat

record grating_result =
  air :: grating_params
  medium :: grating_params

text \<open>
  Every local variable of the function is a definition of its own, under the variable's
  name and in the order of the source.
\<close>

subsection \<open>Air, lines 44 to 62\<close>

definition freq_y_air :: "pyfloat \<Rightarrow> pyfloat \<Rightarrow> pyfloat \<Rightarrow> pyfloat" where
  "freq_y_air wavelength theta_R theta_S =
     np_divide (fsub (np_sin (np_deg2rad theta_S)) (np_sin (np_deg2rad theta_R))) wavelength"

definition freq_z_air :: "pyfloat \<Rightarrow> pyfloat \<Rightarrow> pyfloat \<Rightarrow> pyfloat" where
  "freq_z_air wavelength theta_R theta_S =
     np_divide (fsub (np_cos (np_deg2rad theta_S)) (np_cos (np_deg2rad theta_R))) wavelength"

definition freq_air :: "pyfloat \<Rightarrow> pyfloat \<Rightarrow> pyfloat \<Rightarrow> pyfloat" where
  "freq_air wavelength theta_R theta_S =
     np_sqrt (fadd (square (freq_z_air wavelength theta_R theta_S))
                   (square (freq_y_air wavelength theta_R theta_S)))"

text \<open>\<open>1 / f if f != 0 else float('inf')\<close>; NaN is different from 0.\<close>

definition reciprocal_or_inf :: "pyfloat \<Rightarrow> pyfloat" where
  "reciprocal_or_inf f = (if f \<noteq> Fin 0 then np_divide (Fin 1) f else PInf)"

definition d_y_air :: "pyfloat \<Rightarrow> pyfloat \<Rightarrow> pyfloat \<Rightarrow> pyfloat" where
  "d_y_air wavelength theta_R theta_S = reciprocal_or_inf (freq_y_air wavelength theta_R theta_S)"

definition d_z_air :: "pyfloat \<Rightarrow> pyfloat \<Rightarrow> pyfloat \<Rightarrow> pyfloat" where
  "d_z_air wavelength theta_R theta_S = reciprocal_or_inf (freq_z_air wavelength theta_R theta_S)"

definition psi_air :: "pyfloat \<Rightarrow> pyfloat \<Rightarrow> pyfloat" where
  "psi_air theta_R theta_S = np_divide (fadd theta_S theta_R) (Fin 2)"

definition d_air :: "pyfloat \<Rightarrow> pyfloat \<Rightarrow> pyfloat \<Rightarrow> pyfloat" where
  "d_air wavelength theta_R theta_S =
     fmul (d_y_air wavelength theta_R theta_S) (np_cos (np_deg2rad (psi_air theta_R theta_S)))"

text \<open>The argument of \<open>np.arcsin\<close> on line 59; its divisor is a numpy scalar.\<close>

definition arcsin_arg_air :: "pyfloat \<Rightarrow> pyfloat \<Rightarrow> pyfloat \<Rightarrow> pyfloat \<Rightarrow> pyfloat" where
  "arcsin_arg_air wavelength theta_R theta_S n_1 =
     np_divide wavelength (fmul (fmul (Fin 2) n_1) (d_air wavelength theta_R theta_S))"

text \<open>
  \<open>try: v = body  except ValueError: print(...); v = float('nan')\<close>. The result is
  the value of \<open>v\<close> and what was printed; any other exception goes on to the caller.
\<close>

definition except_ValueError :: "pyerror + pyfloat \<Rightarrow> pyerror + pyfloat \<times> message list" where
  "except_ValueError body =
     (case body of
        Inr v \<Rightarrow> Inr (v, [])
      | Inl ValueError \<Rightarrow> Inr (NaN, [Bragg_angle_error])
      | Inl e \<Rightarrow> Inl e)"

text \<open>
  Lines 58 to 62. The body of the \<open>try\<close> is made of numpy calls on numpy scalars, none
  of which raises: it always yields a value.
\<close>

definition theta_bragg_air ::
  "pyfloat \<Rightarrow> pyfloat \<Rightarrow> pyfloat \<Rightarrow> pyfloat \<Rightarrow> pyerror + pyfloat \<times> message list" where
  "theta_bragg_air wavelength theta_R theta_S n_1 =
     except_ValueError
       (Inr (np_rad2deg (np_arcsin (arcsin_arg_air wavelength theta_R theta_S n_1))))"

subsection \<open>Medium, lines 66 to 88\<close>

text \<open>\<open>n_1 / n_2\<close> divides two Python floats and raises when \<open>n_2\<close> is zero.\<close>

definition psi_R_rad :: "pyfloat \<Rightarrow> pyfloat \<Rightarrow> pyfloat \<Rightarrow> pyerror + pyfloat" where
  "psi_R_rad n_1 n_2 theta_R =
     (case py_truediv n_1 n_2 of
        Inl e \<Rightarrow> Inl e
      | Inr q \<Rightarrow> Inr (np_arcsin (fmul q (np_sin (np_deg2rad theta_R)))))"

definition psi_S_rad :: "pyfloat \<Rightarrow> pyfloat \<Rightarrow> pyfloat \<Rightarrow> pyerror + pyfloat" where
  "psi_S_rad n_1 n_2 theta_S =
     (case py_truediv n_1 n_2 of
        Inl e \<Rightarrow> Inl e
      | Inr q \<Rightarrow> Inr (np_arcsin (fmul q (np_sin (np_deg2rad theta_S)))))"

text \<open>
  The remaining locals, as functions of the two refracted angles \<open>pR\<close> (the value of
  \<open>psi_R_rad\<close>) and \<open>pS\<close> (the value of \<open>psi_S_rad\<close>).
\<close>

definition freq_y_medium :: "pyfloat \<Rightarrow> pyfloat \<Rightarrow> pyfloat \<Rightarrow> pyfloat \<Rightarrow> pyfloat" where
  "freq_y_medium wavelength n_2 pR pS =
     np_divide (fmul (fsub (np_sin pS) (np_sin pR)) n_2) wavelength"

definition freq_z_medium :: "pyfloat \<Rightarrow> pyfloat \<Rightarrow> pyfloat \<Rightarrow> pyfloat \<Rightarrow> pyfloat" where
  "freq_z_medium wavelength n_2 pR pS =
     np_divide (fmul (fsub (np_cos pS) (np_cos pR)) n_2) wavelength"

definition freq_medium :: "pyfloat \<Rightarrow> pyfloat \<Rightarrow> pyfloat \<Rightarrow> pyfloat \<Rightarrow> pyfloat" where
  "freq_medium wavelength n_2 pR pS =
     np_sqrt (fadd (square (freq_z_medium wavelength n_2 pR pS))
                   (square (freq_y_medium wavelength n_2 pR pS)))"

definition d_y_medium :: "pyfloat \<Rightarrow> pyfloat \<Rightarrow> pyfloat \<Rightarrow> pyfloat \<Rightarrow> pyfloat" where
  "d_y_medium wavelength n_2 pR pS = reciprocal_or_inf (freq_y_medium wavelength n_2 pR pS)"

definition d_z_medium :: "pyfloat \<Rightarrow> pyfloat \<Rightarrow> pyfloat \<Rightarrow> pyfloat \<Rightarrow> pyfloat" where
  "d_z_medium wavelength n_2 pR pS = reciprocal_or_inf (freq_z_medium wavelength n_2 pR pS)"

definition psi_medium :: "pyfloat \<Rightarrow> pyfloat \<Rightarrow> pyfloat" where
  "psi_medium pR pS = np_divide (fadd (np_degrees pS) (np_degrees pR)) (Fin 2)"

definition d_medium :: "pyfloat \<Rightarrow> pyfloat \<Rightarrow> pyfloat \<Rightarrow> pyfloat \<Rightarrow> pyfloat" where
  "d_medium wavelength n_2 pR pS =
     fmul (d_y_medium wavelength n_2 pR pS) (np_cos (np_deg2rad (psi_medium pR pS)))"

text \<open>The argument of \<open>np.arcsin\<close> on line 85.\<close>

definition arcsin_arg_medium :: "pyfloat \<Rightarrow> pyfloat \<Rightarrow> pyfloat \<Rightarrow> pyfloat \<Rightarrow> pyfloat" where
  "arcsin_arg_medium wavelength n_2 pR pS =
     np_divide wavelength (fmul (fmul (Fin 2) n_2) (d_medium wavelength n_2 pR pS))"

definition theta_bragg_medium ::
  "pyfloat \<Rightarrow> pyfloat \<Rightarrow> pyfloat \<Rightarrow> pyfloat \<Rightarrow> pyerror + pyfloat \<times> message list" where
  "theta_bragg_medium wavelength n_2 pR pS =
     except_ValueError
       (Inr (np_rad2deg (np_arcsin (arcsin_arg_medium wavelength n_2 pR pS))))"

subsection \<open>The function\<close>

text \<open>
  Lines 90 to 111: the returned dictionary, from the locals that depend on the two
  \<open>try\<close> blocks and on the refracted angles.
\<close>

definition returned_dict ::
  "pyfloat \<Rightarrow> pyfloat \<Rightarrow> pyfloat \<Rightarrow> pyfloat \<Rightarrow> pyfloat \<Rightarrow> pyfloat \<Rightarrow> pyfloat \<Rightarrow> pyfloat
     \<Rightarrow> grating_result" where
  "returned_dict wavelength theta_R theta_S n_2 pR pS bragg_a bragg_m =
     \<lparr>air = \<lparr>period = np_abs (d_air wavelength theta_R theta_S),
             period_y = np_abs (d_y_air wavelength theta_R theta_S),
             period_z = np_abs (d_z_air wavelength theta_R theta_S),
             frequency = np_abs (fmul (freq_air wavelength theta_R theta_S) (Fin 1000)),
             frequency_y = np_abs (fmul (freq_y_air wavelength theta_R theta_S) (Fin 1000)),
             frequency_z = np_abs (fmul (freq_z_air wavelength theta_R theta_S) (Fin 1000)),
             tilt_angle = psi_air theta_R theta_S,
             bragg_angle = bragg_a\<rparr>,
      medium = \<lparr>period = np_abs (d_medium wavelength n_2 pR pS),
             period_y = np_abs (d_y_medium wavelength n_2 pR pS),
             period_z = np_abs (d_z_medium wavelength n_2 pR pS),
             frequency = np_abs (fmul (freq_medium wavelength n_2 pR pS) (Fin 1000)),
             frequency_y = np_abs (fmul (freq_y_medium wavelength n_2 pR pS) (Fin 1000)),
             frequency_z = np_abs (fmul (freq_z_medium wavelength n_2 pR pS) (Fin 1000)),
             tilt_angle = psi_medium pR pS,
             bragg_angle = bragg_m\<rparr>\<rparr>"

text \<open>
  A call ends with the returned dictionary or with the exception that stopped it, and in
  both cases with the lines it has printed.
\<close>

definition calculate_grating_parameters ::
  "pyfloat \<Rightarrow> pyfloat \<Rightarrow> pyfloat \<Rightarrow> pyfloat \<Rightarrow> pyfloat
     \<Rightarrow> (pyerror + grating_result) \<times> message list" where
  "calculate_grating_parameters wavelength theta_R theta_S n_1 n_2 =
     (case theta_bragg_air wavelength theta_R theta_S n_1 of
        Inl e \<Rightarrow> (Inl e, [])
      | Inr (bragg_a, out_a) \<Rightarrow>
     (case psi_R_rad n_1 n_2 theta_R of
        Inl e \<Rightarrow> (Inl e, out_a)
      | Inr pR \<Rightarrow>
     (case psi_S_rad n_1 n_2 theta_S of
        Inl e \<Rightarrow> (Inl e, out_a)
      | Inr pS \<Rightarrow>
     (case theta_bragg_medium wavelength n_2 pR pS of
        Inl e \<Rightarrow> (Inl e, out_a)
      | Inr (bragg_m, out_m) \<Rightarrow>
          (Inr (returned_dict wavelength theta_R theta_S n_2 pR pS bragg_a bragg_m),
           out_a @ out_m)))))"

section \<open>Rendering and the script's main block\<close>

text \<open>
  What a rendered figure shows is kept as data: the table image holds the parameter record
  and the two indices of its column headers; the figure of \<open>create_graphs\<close> holds the
  grid, the two intensity surfaces and the two wavelengths printed in its titles. The
  files in the working directory are a map from file name to the figure saved there;
  \<open>plt.savefig\<close> writes the current figure under the name it is given, replacing a file
  of that name. The drawing calls of matplotlib are taken to succeed, and \<open>plt.show\<close>
  writes no file.
\<close>

datatype figure =
    Table_figure grating_result pyfloat pyfloat
  | Graphs_figure array2 array2 array2 array2 pyfloat pyfloat

type_synonym files = "string \<rightharpoonup> figure"

definition savefig :: "string \<Rightarrow> figure \<Rightarrow> files \<Rightarrow> files" where
  "savefig name fig fs = fs(name \<mapsto> fig)"

text \<open>
  Lines 165 to 209. Formatting a float with \<open>:.3f\<close> never raises, so the function
  always reaches its \<open>plt.savefig('results_table.png', ...)\<close>.
\<close>

definition create_table_image :: "grating_result \<Rightarrow> pyfloat \<Rightarrow> pyfloat \<Rightarrow> files \<Rightarrow> files" where
  "create_table_image params n_1 n_2 fs =
     savefig ''results_table.png'' (Table_figure params n_1 n_2) fs"

text \<open>
  Lines 114 to 151. The function reads the globals \<open>X\<close>, \<open>Y\<close>, \<open>I_air\<close> and
  \<open>I_medium\<close>, which are parameters here. Its titles format \<open>wavelength/n_1\<close> (line
  121) and \<open>wavelength/n_2\<close> (line 136), quotients of Python floats, before the figure
  is saved on line 151 with \<open>plt.savefig('results_table.png', ...)\<close>.
\<close>

definition create_graphs ::
  "array2 \<Rightarrow> array2 \<Rightarrow> array2 \<Rightarrow> array2
     \<Rightarrow> pyfloat \<Rightarrow> pyfloat \<Rightarrow> pyfloat \<Rightarrow> pyfloat \<Rightarrow> pyfloat \<Rightarrow> files \<Rightarrow> pyerror + files" where
  "create_graphs X Y I_air I_medium wavelength theta_R theta_S n_1 n_2 fs =
     (case py_truediv wavelength n_1 of
        Inl e \<Rightarrow> Inl e
      | Inr w_air \<Rightarrow>
     (case py_truediv wavelength n_2 of
        Inl e \<Rightarrow> Inl e
      | Inr w_medium \<Rightarrow>
          Inr (savefig ''results_table.png''
                 (Graphs_figure X Y I_air I_medium w_air w_medium) fs)))"

text \<open>
  Lines 8 to 12 with the globals of lines 215 and 216. \<open>np.arange(a, b, s)\<close> with a
  positive step holds the \<open>ceil((b - a) / s)\<close> values \<open>a + i * s\<close>;
  \<open>np.meshgrid(x, y)\<close> gives two arrays with a row for each entry of \<open>y\<close> and a
  column for each entry of \<open>x\<close>: the first holds \<open>x[j]\<close> at index \<open>(i, j)\<close>, the
  second \<open>y[i]\<close>.
\<close>

definition scale :: real where
  "scale = 1"

definition step :: real where
  "step = 1 / 100"

definition np_arange :: "real \<Rightarrow> real \<Rightarrow> real \<Rightarrow> pyfloat list" where
  "np_arange a b s = map (\<lambda>i. Fin (a + real i * s)) [0..<nat \<lceil>(b - a) / s\<rceil>]"

definition np_meshgrid :: "pyfloat list \<Rightarrow> pyfloat list \<Rightarrow> array2 \<times> array2" where
  "np_meshgrid x y =
     (\<lparr>nrows = length y, ncols = length x, entry = (\<lambda>i j. x ! j)\<rparr>,
      \<lparr>nrows = length y, ncols = length x, entry = (\<lambda>i j. y ! i)\<rparr>)"

definition get_size :: "array2 \<times> array2" where
  "get_size = np_meshgrid (np_arange (- scale) scale step) (np_arange (- scale) scale step)"

text \<open>
  Lines 218 to 236, from the five parsed inputs on. A run ends with the files it has
  written, the lines it has printed, and the exception that stopped it, if any.
\<close>

record outcome =
  raised :: "pyerror option"
  written :: files
  printed :: "message list"

definition main ::
  "pyfloat \<Rightarrow> pyfloat \<Rightarrow> pyfloat \<Rightarrow> pyfloat \<Rightarrow> pyfloat \<Rightarrow> files \<Rightarrow> outcome" where
  "main wavelength theta_R theta_S n_1 n_2 fs =
     (case get_size of (X, Y) \<Rightarrow>
     (case calculate_intensity X Y wavelength theta_R theta_S of
        Inl e \<Rightarrow> \<lparr>raised = Some e, written = fs, printed = []\<rparr>
      | Inr I_air \<Rightarrow>
     (case py_truediv wavelength n_2 of
        Inl e \<Rightarrow> \<lparr>raised = Some e, written = fs, printed = []\<rparr>
      | Inr w_medium \<Rightarrow>
     (case calculate_intensity X Y w_medium theta_R theta_S of
        Inl e \<Rightarrow> \<lparr>raised = Some e, written = fs, printed = []\<rparr>
      | Inr I_medium \<Rightarrow>
     (case calculate_grating_parameters wavelength theta_R theta_S n_1 n_2 of
        (Inl e, out) \<Rightarrow> \<lparr>raised = Some e, written = fs, printed = out\<rparr>
      | (Inr params, out) \<Rightarrow>
     (case create_graphs X Y I_air I_medium wavelength theta_R theta_S n_1 n_2
             (create_table_image params n_1 n_2 fs) of
        Inl e \<Rightarrow> \<lparr>raised = Some e, written = create_table_image params n_1 n_2 fs,
                   printed = out\<rparr>
      | Inr fs' \<Rightarrow> \<lparr>raised = None, written = fs', printed = out\<rparr>))))))"

section \<open>Notions used in the statements\<close>

text \<open>
  The refracted angle of lines 66 and 67, \<open>arcsin(n_1 / n_2 * sin(theta))\<close> in radians,
  with the quotient taken as the value it has when \<open>n_2\<close> is not zero.
\<close>

definition snell_angle :: "pyfloat \<Rightarrow> pyfloat \<Rightarrow> pyfloat \<Rightarrow> pyfloat" where
  "snell_angle n_1 n_2 theta = np_arcsin (fmul (np_divide n_1 n_2) (np_sin (np_deg2rad theta)))"

text \<open>The dictionary that a call returns when it returns.\<close>

definition returned_params ::
  "pyfloat \<Rightarrow> pyfloat \<Rightarrow> pyfloat \<Rightarrow> pyfloat \<Rightarrow> pyfloat \<Rightarrow> grating_result" where
  "returned_params wavelength theta_R theta_S n_1 n_2 =
     returned_dict wavelength theta_R theta_S n_2
       (snell_angle n_1 n_2 theta_R) (snell_angle n_1 n_2 theta_S)
       (np_rad2deg (np_arcsin (arcsin_arg_air wavelength theta_R theta_S n_1)))
       (np_rad2deg (np_arcsin (arcsin_arg_medium wavelength n_2
          (snell_angle n_1 n_2 theta_R) (snell_angle n_1 n_2 theta_S))))"

text \<open>A value that is not negative: NaN, or a number or infinity that is at least zero.\<close>

definition nonneg_or_nan :: "pyfloat \<Rightarrow> bool" where
  "nonneg_or_nan v = (v = NaN \<or> fle (Fin 0) v)"

text \<open>
  The wave-vector components of a beam at the angle \<open>theta\<close>, as the specification
  words them: \<open>k * sin\<close> and \<open>k * cos\<close> of the angle in radians, with
  \<open>k = 2 * pi / wavelength\<close>.
\<close>

definition wave_vector_x :: "pyfloat \<Rightarrow> pyfloat \<Rightarrow> pyfloat" where
  "wave_vector_x wavelength theta =
     fmul (np_divide (Fin (2 * pi)) wavelength) (np_sin (np_deg2rad theta))"

definition wave_vector_z :: "pyfloat \<Rightarrow> pyfloat \<Rightarrow> pyfloat" where
  "wave_vector_z wavelength theta =
     fmul (np_divide (Fin (2 * pi)) wavelength) (np_cos (np_deg2rad theta))"

text \<open>
  The phase difference and the intensity at one grid point with coordinates \<open>x\<close> and
  \<open>y\<close>, as the specification words them:
  \<open>phase_diff = (k_Rx - k_Sx) * x + (k_Rz - k_Sz) * y\<close> and the intensity is
  \<open>(cos(phase_diff) + 1) ** 2\<close>.
\<close>

definition phase_at :: "pyfloat \<Rightarrow> pyfloat \<Rightarrow> pyfloat \<Rightarrow> pyfloat \<Rightarrow> pyfloat \<Rightarrow> pyfloat" where
  "phase_at wavelength theta_R theta_S x y =
     fadd (fmul (fsub (wave_vector_x wavelength theta_R) (wave_vector_x wavelength theta_S)) x)
          (fmul (fsub (wave_vector_z wavelength theta_R) (wave_vector_z wavelength theta_S)) y)"

definition intensity_at :: "pyfloat \<Rightarrow> pyfloat \<Rightarrow> pyfloat \<Rightarrow> pyfloat \<Rightarrow> pyfloat \<Rightarrow> pyfloat" where
  "intensity_at wavelength theta_R theta_S x y =
     square (fadd (np_cos (phase_at wavelength theta_R theta_S x y)) (Fin 1))"

text \<open>An array without NaN and without infinities.\<close>

definition all_finite :: "array2 \<Rightarrow> bool" where
  "all_finite A = (\<forall>i j. i < nrows A \<and> j < ncols A \<longrightarrow> is_finite (entry A i j))"

text \<open>
  For examples: the array with the given rows, which are to be of one length, and the rows
  of an array.
\<close>

definition of_rows :: "pyfloat list list \<Rightarrow> array2" where
  "of_rows rs =
     \<lparr>nrows = length rs, ncols = (case rs of [] \<Rightarrow> 0 | r # _ \<Rightarrow> length r),
      entry = (\<lambda>i j. rs ! i ! j)\<rparr>"

definition to_rows :: "array2 \<Rightarrow> pyfloat list list" where
  "to_rows A = map (\<lambda>i. map (\<lambda>j. entry A i j) [0..<ncols A]) [0..<nrows A]"

text \<open>
  The two fields of one axis derive from the signed frequency \<open>f\<close> of that axis, in
  lines per micron: the frequency field is \<open>abs(f * 1000)\<close> and the period field is
  \<open>abs(1 / f if f != 0 else float('inf'))\<close>.
\<close>

definition axis_fields :: "pyfloat \<Rightarrow> pyfloat \<Rightarrow> pyfloat \<Rightarrow> bool" where
  "axis_fields f per fr =
     (per = np_abs (reciprocal_or_inf f) \<and> fr = np_abs (fmul f (Fin 1000)))"

text \<open>A value in the closed interval from 0 to 4.\<close>

definition within_0_4 :: "pyfloat \<Rightarrow> bool" where
  "within_0_4 v = (fle (Fin 0) v \<and> fle v (Fin 4))"

text \<open>Which of the two figures a saved file holds.\<close>

fun is_table :: "figure \<Rightarrow> bool" where
  "is_table (Table_figure params n_1 n_2) = True"
| "is_table (Graphs_figure X Y I_air I_medium w_air w_medium) = False"

section \<open>Basic facts\<close>

lemma np_deg2rad_Fin: "np_deg2rad (Fin a) = Fin (a * pi / 180)"
  by (simp add: np_deg2rad_def)

lemma np_rad2deg_Fin: "np_rad2deg (Fin a) = Fin (a * 180 / pi)"
  by (simp add: np_rad2deg_def)

lemma np_rad2deg_NaN: "np_rad2deg NaN = NaN"
  by (simp add: np_rad2deg_def)

text \<open>Neither \<open>try\<close> block ever reaches its handler: nothing is printed.\<close>

lemma theta_bragg_air_value:
  "theta_bragg_air wavelength theta_R theta_S n_1 =
     Inr (np_rad2deg (np_arcsin (arcsin_arg_air wavelength theta_R theta_S n_1)), [])"
  by (simp add: theta_bragg_air_def except_ValueError_def)

lemma theta_bragg_medium_value:
  "theta_bragg_medium wavelength n_2 pR pS =
     Inr (np_rad2deg (np_arcsin (arcsin_arg_medium wavelength n_2 pR pS)), [])"
  by (simp add: theta_bragg_medium_def except_ValueError_def)

lemma psi_R_rad_value:
  "n_2 \<noteq> Fin 0 \<Longrightarrow> psi_R_rad n_1 n_2 theta = Inr (snell_angle n_1 n_2 theta)"
  by (simp add: psi_R_rad_def py_truediv_def snell_angle_def)

lemma psi_S_rad_value:
  "n_2 \<noteq> Fin 0 \<Longrightarrow> psi_S_rad n_1 n_2 theta = Inr (snell_angle n_1 n_2 theta)"
  by (simp add: psi_S_rad_def py_truediv_def snell_angle_def)

lemma psi_R_rad_zero: "psi_R_rad n_1 (Fin 0) theta = Inl ZeroDivisionError"
  by (simp add: psi_R_rad_def py_truediv_def)

text \<open>The function returns exactly when \<open>n_2\<close> is not zero.\<close>

lemma calculate_grating_parameters_returns:
  "n_2 \<noteq> Fin 0 \<Longrightarrow>
   calculate_grating_parameters wavelength theta_R theta_S n_1 n_2 =
     (Inr (returned_params wavelength theta_R theta_S n_1 n_2), [])"
  by (simp add: calculate_grating_parameters_def theta_bragg_air_value theta_bragg_medium_value
      psi_R_rad_value psi_S_rad_value returned_params_def)

lemma calculate_grating_parameters_raises:
  "calculate_grating_parameters wavelength theta_R theta_S n_1 (Fin 0) =
     (Inl ZeroDivisionError, [])"
  by (simp add: calculate_grating_parameters_def theta_bragg_air_value psi_R_rad_zero)

lemma calculate_grating_parameters_cases:
  assumes "calculate_grating_parameters wavelength theta_R theta_S n_1 n_2 = (Inr res, out)"
  shows "n_2 \<noteq> Fin 0"
    and "res = returned_params wavelength theta_R theta_S n_1 n_2"
    and "out = []"
proof -
  show n2: "n_2 \<noteq> Fin 0"
    using assms by (auto simp: calculate_grating_parameters_raises)
  from calculate_grating_parameters_returns [OF n2, of wavelength theta_R theta_S n_1] assms
  show "res = returned_params wavelength theta_R theta_S n_1 n_2" and "out = []"
    by simp_all
qed

lemmas air_defs = freq_y_air_def freq_z_air_def freq_air_def d_y_air_def d_z_air_def
  psi_air_def d_air_def arcsin_arg_air_def reciprocal_or_inf_def square_def fsub_def

lemmas medium_defs = freq_y_medium_def freq_z_medium_def freq_medium_def d_y_medium_def
  d_z_medium_def psi_medium_def d_medium_def arcsin_arg_medium_def reciprocal_or_inf_def
  square_def fsub_def np_degrees_def

lemma is_finite_Fin: "is_finite v \<Longrightarrow> \<exists>a. v = Fin a"
  by (cases v) simp_all

section \<open>Arrays\<close>

lemma broadcast_dim_same: "broadcast_dim a a = Some a"
  by (simp add: broadcast_dim_def)

lemma broadcast_index_same: "i < a \<Longrightarrow> broadcast_index a i = i"
  by (simp add: broadcast_index_def)

lemma broadcast_index_less:
  assumes "broadcast_dim a b = Some m" and "i < m"
  shows "broadcast_index a i < a" and "broadcast_index b i < b"
  using assms by (auto simp: broadcast_dim_def broadcast_index_def split: if_splits)

lemma dims_arr_scale: "nrows (arr_scale c A) = nrows A" "ncols (arr_scale c A) = ncols A"
  by (simp_all add: arr_scale_def)

lemma arr_add_same_shape:
  "shape A = shape B \<Longrightarrow> arr_add A B = Inr (elementwise fadd A B (nrows A) (ncols A))"
  by (simp add: arr_add_def shape_def broadcast_dim_same)

lemma elementwise_scaled:
  "elementwise fadd (arr_scale a X) (arr_scale b Y) m n =
     elementwise (\<lambda>x y. fadd (fmul a x) (fmul b y)) X Y m n"
  by (simp add: elementwise_def arr_scale_def)

lemma arr_map_elementwise:
  "arr_map g (elementwise f A B m n) = elementwise (\<lambda>x y. g (f x y)) A B m n"
  by (simp add: elementwise_def arr_map_def)

lemma entry_elementwise_same_shape:
  "shape A = shape B \<Longrightarrow> i < nrows A \<Longrightarrow> j < ncols A \<Longrightarrow>
   entry (elementwise f A B (nrows A) (ncols A)) i j = f (entry A i j) (entry B i j)"
  by (simp add: elementwise_def shape_def broadcast_index_same)

section \<open>The intensity field\<close>

lemma phase_diff_raises: "phase_diff X Y (Fin 0) theta_R theta_S = Inl ZeroDivisionError"
  by (simp add: phase_diff_def py_truediv_def)

lemma calculate_intensity_raises:
  "calculate_intensity X Y (Fin 0) theta_R theta_S = Inl ZeroDivisionError"
  by (simp add: calculate_intensity_def phase_diff_raises)

lemma phase_diff_value:
  assumes "wavelength \<noteq> Fin 0"
  shows "phase_diff X Y wavelength theta_R theta_S =
           (case broadcast_dim (nrows X) (nrows Y) of
              None \<Rightarrow> Inl ValueError
            | Some m \<Rightarrow>
                (case broadcast_dim (ncols X) (ncols Y) of
                   None \<Rightarrow> Inl ValueError
                 | Some n \<Rightarrow> Inr (elementwise (phase_at wavelength theta_R theta_S) X Y m n)))"
proof -
  have "arr_add (arr_scale a X) (arr_scale b Y) =
          (case broadcast_dim (nrows X) (nrows Y) of
              None \<Rightarrow> Inl ValueError
            | Some m \<Rightarrow>
                (case broadcast_dim (ncols X) (ncols Y) of
                   None \<Rightarrow> Inl ValueError
                 | Some n \<Rightarrow> Inr (elementwise (\<lambda>x y. fadd (fmul a x) (fmul b y)) X Y m n)))" for a b
    by (simp add: arr_add_def elementwise_scaled dims_arr_scale split: option.splits)
  then show ?thesis
    using assms
    by (simp add: phase_diff_def py_truediv_def Let_def phase_at_def [abs_def] wave_vector_x_def
        wave_vector_z_def split: option.splits)
qed

lemma calculate_intensity_value:
  assumes "wavelength \<noteq> Fin 0"
  shows "calculate_intensity X Y wavelength theta_R theta_S =
           (case broadcast_dim (nrows X) (nrows Y) of
              None \<Rightarrow> Inl ValueError
            | Some m \<Rightarrow>
                (case broadcast_dim (ncols X) (ncols Y) of
                   None \<Rightarrow> Inl ValueError
                 | Some n \<Rightarrow> Inr (elementwise (intensity_at wavelength theta_R theta_S) X Y m n)))"
  by (simp add: calculate_intensity_def phase_diff_value [OF assms] arr_map_elementwise
      intensity_at_def [abs_def] split: option.splits)

lemma calculate_intensity_same_shape:
  assumes "wavelength \<noteq> Fin 0" and "shape X = shape Y"
  shows "calculate_intensity X Y wavelength theta_R theta_S =
           Inr (elementwise (intensity_at wavelength theta_R theta_S) X Y (nrows X) (ncols X))"
  using assms(2)
  by (simp add: calculate_intensity_value [OF assms(1)] shape_def broadcast_dim_same)

lemma calculate_intensity_cases:
  assumes "calculate_intensity X Y wavelength theta_R theta_S = Inr I"
  obtains m n where "wavelength \<noteq> Fin 0"
    and "broadcast_dim (nrows X) (nrows Y) = Some m"
    and "broadcast_dim (ncols X) (ncols Y) = Some n"
    and "I = elementwise (intensity_at wavelength theta_R theta_S) X Y m n"
    and "phase_diff X Y wavelength theta_R theta_S =
           Inr (elementwise (phase_at wavelength theta_R theta_S) X Y m n)"
proof -
  have w: "wavelength \<noteq> Fin 0"
    using assms by (auto simp: calculate_intensity_raises)
  from assms show thesis
    using that w
    by (auto simp: calculate_intensity_value [OF w] phase_diff_value [OF w] split: option.splits)
qed


text \<open>One row of one or two grid points.\<close>

lemma intensity_1x1:
  "wavelength \<noteq> Fin 0 \<Longrightarrow>
   map_sum id to_rows
     (calculate_intensity (of_rows [[a]]) (of_rows [[b]]) wavelength theta_R theta_S) =
   Inr [[intensity_at wavelength theta_R theta_S a b]]"
  by (simp add: calculate_intensity_value broadcast_dim_def of_rows_def to_rows_def
      elementwise_def broadcast_index_def)

lemma intensity_1x2:
  "wavelength \<noteq> Fin 0 \<Longrightarrow>
   map_sum id to_rows
     (calculate_intensity (of_rows [[a, a']]) (of_rows [[b, b']]) wavelength theta_R theta_S) =
   Inr [[intensity_at wavelength theta_R theta_S a b, intensity_at wavelength theta_R theta_S a' b']]"
  by (simp add: calculate_intensity_value broadcast_dim_def of_rows_def to_rows_def
      elementwise_def broadcast_index_def upt_rec)

lemma square_cos_range:
  "square (fadd (np_cos p) (Fin 1)) = NaN \<or> within_0_4 (square (fadd (np_cos p) (Fin 1)))"
proof (cases p)
  case (Fin a)
  have lo: "0 \<le> cos a + 1" and hi: "cos a + 1 \<le> 2"
    using cos_ge_minus_one [of a] cos_le_one [of a] by linarith+
  have "(cos a + 1) * (cos a + 1) \<le> 2 * 2"
    using lo hi by (intro mult_mono) simp_all
  moreover have "0 \<le> (cos a + 1) * (cos a + 1)"
    using lo by simp
  ultimately show ?thesis using Fin
    by (simp add: square_def within_0_4_def)
qed (simp_all add: square_def)

lemma intensity_at_range:
  "intensity_at wavelength theta_R theta_S x y = NaN \<or>
   within_0_4 (intensity_at wavelength theta_R theta_S x y)"
  unfolding intensity_at_def by (rule square_cos_range)

text \<open>Equal angles with finite wave-vector components, at a point with finite coordinates.\<close>

lemma phase_at_equal_angles:
  assumes "is_finite (wave_vector_x wavelength theta)" and "is_finite (wave_vector_z wavelength theta)"
    and "is_finite x" and "is_finite y"
  shows "phase_at wavelength theta theta x y = Fin 0"
proof -
  from assms obtain p q a b where
    "wave_vector_x wavelength theta = Fin p" "wave_vector_z wavelength theta = Fin q"
    "x = Fin a" "y = Fin b"
    by (meson is_finite_Fin)
  then show ?thesis
    by (simp add: phase_at_def fsub_def)
qed

lemma intensity_at_equal_angles:
  assumes "is_finite (wave_vector_x wavelength theta)" and "is_finite (wave_vector_z wavelength theta)"
    and "is_finite x" and "is_finite y"
  shows "intensity_at wavelength theta theta x y = Fin 4"
  by (simp add: intensity_at_def phase_at_equal_angles [OF assms] square_def)

lemma intensity_two_points:
  "map_sum id to_rows
     (calculate_intensity (of_rows [[Fin 0, Fin (1/2)]]) (of_rows [[Fin 0, Fin 0]])
        (Fin 2) (Fin 90) (Fin (-90))) = Inr [[Fin 4, Fin 0]]"
  by (simp add: intensity_1x2 intensity_at_def phase_at_def wave_vector_x_def
      wave_vector_z_def np_deg2rad_Fin fsub_def square_def)

text \<open>
  C1, as amended: for every wavelength other than zero, every pair of angles and every two
  grid arrays \<open>X\<close> and \<open>Y\<close> of one shape, \<open>calculate_intensity\<close> raises no
  error and returns an array of that shape whose element at each index is
  \<open>(cos(phase_diff) + 1) ** 2\<close> for the phase difference of the specification at that
  grid point. Every element is non-negative or NaN.
\<close>

theorem calculate_intensity_defined:
  assumes "wavelength \<noteq> Fin 0" and "shape X = shape Y"
  shows "\<exists>I. calculate_intensity X Y wavelength theta_R theta_S = Inr I \<and> shape I = shape X \<and>
           (\<forall>i j. i < nrows X \<and> j < ncols X \<longrightarrow>
              entry I i j = intensity_at wavelength theta_R theta_S (entry X i j) (entry Y i j) \<and>
              nonneg_or_nan (entry I i j))"
proof -
  let ?I = "elementwise (intensity_at wavelength theta_R theta_S) X Y (nrows X) (ncols X)"
  have eq: "calculate_intensity X Y wavelength theta_R theta_S = Inr ?I"
    using assms by (rule calculate_intensity_same_shape)
  have sh: "shape ?I = shape X"
    by (simp add: shape_def elementwise_def)
  have pt: "entry ?I i j = intensity_at wavelength theta_R theta_S (entry X i j) (entry Y i j)"
    if "i < nrows X" "j < ncols X" for i j
    using assms(2) that by (rule entry_elementwise_same_shape)
  have nn: "nonneg_or_nan (intensity_at wavelength theta_R theta_S x y)" for x y
    using intensity_at_range [of wavelength theta_R theta_S x y]
    by (auto simp: nonneg_or_nan_def within_0_4_def)
  from eq sh pt nn show ?thesis
    by simp
qed

theorem calculate_intensity_defined_witness:
  "\<exists>I. calculate_intensity (of_rows [[Fin 0, Fin (1/2)]]) (of_rows [[Fin 0, Fin 0]])
          (Fin 2) (Fin 90) (Fin (-90)) = Inr I
      \<and> shape I = (1, 2) \<and> nonneg_or_nan (entry I 0 1)"
  using calculate_intensity_defined
    [of "Fin 2" "of_rows [[Fin 0, Fin (1/2)]]" "of_rows [[Fin 0, Fin 0]]" "Fin 90" "Fin (-90)"]
  by (auto simp: shape_def of_rows_def)

text \<open>
  C1 as stated fails: with wavelength 0 the call raises ZeroDivisionError on line 22, and
  with a NaN angle the returned element is NaN, which is not at least 0.
\<close>

theorem calculate_intensity_not_always_defined:
  "calculate_intensity (of_rows [[Fin 0]]) (of_rows [[Fin 0]]) (Fin 0) (Fin 30) (Fin (-30)) =
     Inl ZeroDivisionError
   \<and> map_sum id to_rows
       (calculate_intensity (of_rows [[Fin 0]]) (of_rows [[Fin 0]]) (Fin 1) NaN (Fin 30)) =
     Inr [[NaN]]
   \<and> \<not> fle (Fin 0) NaN"
  by (simp add: calculate_intensity_raises intensity_1x1 intensity_at_def phase_at_def
      wave_vector_x_def wave_vector_z_def np_deg2rad_def fsub_def square_def)

text \<open>
  C9, as amended: every element of an array that \<open>calculate_intensity\<close> returns is NaN
  or lies in the closed interval from 0 to 4.
\<close>

theorem intensity_range:
  assumes "calculate_intensity X Y wavelength theta_R theta_S = Inr I"
  shows "\<forall>i j. i < nrows I \<and> j < ncols I \<longrightarrow> entry I i j = NaN \<or> within_0_4 (entry I i j)"
proof -
  from assms obtain m n where
    "I = elementwise (intensity_at wavelength theta_R theta_S) X Y m n"
    by (rule calculate_intensity_cases)
  then show ?thesis
    by (simp add: elementwise_def intensity_at_range)
qed


lemma all_finite_of_rows_1x2: "all_finite (of_rows [[Fin a, Fin b]])"
  by (auto simp: all_finite_def of_rows_def less_Suc_eq numeral_2_eq_2)

theorem intensity_range_witness:
  "\<exists>I. calculate_intensity (of_rows [[Fin 0, Fin (1/2)]]) (of_rows [[Fin 0, Fin 0]])
          (Fin 2) (Fin 90) (Fin (-90)) = Inr I
      \<and> to_rows I = [[Fin 4, Fin 0]] \<and> within_0_4 (entry I 0 0) \<and> within_0_4 (entry I 0 1)"
proof -
  let ?X = "of_rows [[Fin 0, Fin (1/2)]]" and ?Y = "of_rows [[Fin 0, Fin 0]]"
  let ?I = "elementwise (intensity_at (Fin 2) (Fin 90) (Fin (-90))) ?X ?Y (nrows ?X) (ncols ?X)"
  have eq: "calculate_intensity ?X ?Y (Fin 2) (Fin 90) (Fin (-90)) = Inr ?I"
    by (rule calculate_intensity_same_shape) (simp_all add: shape_def of_rows_def)
  have rows: "to_rows ?I = [[Fin 4, Fin 0]]"
    using intensity_two_points by (simp add: eq)
  have dims: "nrows ?I = 1" "ncols ?I = 2"
    by (simp_all add: elementwise_def of_rows_def)
  have "entry ?I 0 0 = Fin 4" "entry ?I 0 1 = Fin 0"
    using rows by (simp_all add: to_rows_def dims upt_rec)
  with intensity_range [OF eq] dims have "within_0_4 (entry ?I 0 0)" "within_0_4 (entry ?I 0 1)"
    by (simp_all add: within_0_4_def)
  with eq rows show ?thesis
    by blast
qed

text \<open>
  C9 as stated fails: with a NaN angle the returned element is NaN, and NaN is not at
  most 4.
\<close>

theorem intensity_not_within_range:
  "map_sum id to_rows
     (calculate_intensity (of_rows [[Fin 0]]) (of_rows [[Fin 0]]) (Fin 1) (Fin 30) NaN) =
     Inr [[NaN]]
   \<and> \<not> fle NaN (Fin 4)"
  by (simp add: intensity_1x1 intensity_at_def phase_at_def
      wave_vector_x_def wave_vector_z_def np_deg2rad_def fsub_def square_def)

text \<open>
  C5, as amended: when \<open>calculate_intensity\<close> returns for an angle taken for both
  \<open>theta_R\<close> and \<open>theta_S\<close>, the two wave-vector components \<open>k * sin(theta)\<close> and
  \<open>k * cos(theta)\<close> are finite and the entries of both grid arrays are finite, then the
  phase difference is 0 at every grid point and the returned intensity is 4 at every grid
  point.
\<close>

theorem equal_angles_intensity:
  assumes "calculate_intensity X Y wavelength theta theta = Inr I"
    and "is_finite (wave_vector_x wavelength theta)"
    and "is_finite (wave_vector_z wavelength theta)"
    and "all_finite X" and "all_finite Y"
  shows "\<exists>P. phase_diff X Y wavelength theta theta = Inr P \<and> shape P = shape I \<and>
           (\<forall>i j. i < nrows I \<and> j < ncols I \<longrightarrow> entry P i j = Fin 0 \<and> entry I i j = Fin 4)"
proof -
  from assms(1) obtain m n where
    bm: "broadcast_dim (nrows X) (nrows Y) = Some m"
    and bn: "broadcast_dim (ncols X) (ncols Y) = Some n"
    and I: "I = elementwise (intensity_at wavelength theta theta) X Y m n"
    and P: "phase_diff X Y wavelength theta theta =
              Inr (elementwise (phase_at wavelength theta theta) X Y m n)"
    by (rule calculate_intensity_cases)
  let ?P = "elementwise (phase_at wavelength theta theta) X Y m n"
  have sh: "shape ?P = shape I"
    by (simp add: I shape_def elementwise_def)
  have pt: "entry ?P i j = Fin 0 \<and> entry I i j = Fin 4" if "i < nrows I" "j < ncols I" for i j
  proof -
    from that have i: "i < m" and j: "j < n"
      by (simp_all add: I elementwise_def)
    let ?x = "entry X (broadcast_index (nrows X) i) (broadcast_index (ncols X) j)"
    let ?y = "entry Y (broadcast_index (nrows Y) i) (broadcast_index (ncols Y) j)"
    have "is_finite ?x"
      using assms(4) broadcast_index_less(1) [OF bm i] broadcast_index_less(1) [OF bn j]
      by (simp add: all_finite_def)
    moreover have "is_finite ?y"
      using assms(5) broadcast_index_less(2) [OF bm i] broadcast_index_less(2) [OF bn j]
      by (simp add: all_finite_def)
    ultimately have "phase_at wavelength theta theta ?x ?y = Fin 0"
      and "intensity_at wavelength theta theta ?x ?y = Fin 4"
      using assms(2,3) by (simp_all add: phase_at_equal_angles intensity_at_equal_angles)
    then show ?thesis
      by (simp add: I elementwise_def)
  qed
  from P sh pt show ?thesis
    by blast
qed

theorem equal_angles_intensity_witness:
  "\<exists>I. calculate_intensity (of_rows [[Fin 0, Fin 1]]) (of_rows [[Fin 2, Fin 3]])
          (Fin (1/2)) (Fin 30) (Fin 30) = Inr I
      \<and> shape I = (1, 2) \<and> entry I 0 0 = Fin 4 \<and> entry I 0 1 = Fin 4"
proof -
  define X where "X = of_rows [[Fin 0, Fin 1]]"
  define Y where "Y = of_rows [[Fin 2, Fin 3]]"
  define I where "I = elementwise (intensity_at (Fin (1/2)) (Fin 30) (Fin 30)) X Y (nrows X) (ncols X)"
  have eq: "calculate_intensity X Y (Fin (1/2)) (Fin 30) (Fin 30) = Inr I"
    unfolding I_def
    by (rule calculate_intensity_same_shape) (simp_all add: shape_def of_rows_def X_def Y_def)
  have dims: "nrows I = 1" "ncols I = 2"
    by (simp_all add: I_def elementwise_def of_rows_def X_def)
  have fin: "is_finite (wave_vector_x (Fin (1/2)) (Fin 30))"
    "is_finite (wave_vector_z (Fin (1/2)) (Fin 30))"
    by (simp_all add: wave_vector_x_def wave_vector_z_def np_deg2rad_Fin)
  have finX: "all_finite X" and finY: "all_finite Y"
    unfolding X_def Y_def by (rule all_finite_of_rows_1x2)+
  from equal_angles_intensity [OF eq fin finX finY]
  obtain P :: array2 where
    all: "\<forall>i j. i < nrows I \<and> j < ncols I \<longrightarrow> entry P i j = Fin 0 \<and> entry I i j = Fin 4"
    by blast
  have e1: "entry I 0 0 = Fin 4"
    using all [rule_format, of 0 0] dims by simp
  have e2: "entry I 0 1 = Fin 4"
    using all [rule_format, of 0 1] dims by simp
  have sh: "shape I = (1, 2)"
    using dims by (simp add: shape_def)
  from eq e1 e2 sh show ?thesis
    unfolding X_def Y_def by (intro exI [of _ I] conjI)
qed

text \<open>
  C5 as stated fails: with wavelength 0 and equal angles the call raises and returns no
  intensity; with both angles infinite, with an infinite grid coordinate or with a NaN
  wavelength the returned element is NaN, not 4.
\<close>

theorem equal_angles_intensity_fails:
  "calculate_intensity (of_rows [[Fin 0]]) (of_rows [[Fin 0]]) (Fin 0) (Fin 30) (Fin 30) =
     Inl ZeroDivisionError
   \<and> map_sum id to_rows
       (calculate_intensity (of_rows [[Fin 0]]) (of_rows [[Fin 0]]) (Fin 1) PInf PInf) =
     Inr [[NaN]]
   \<and> map_sum id to_rows
       (calculate_intensity (of_rows [[PInf]]) (of_rows [[Fin 0]]) (Fin 1) (Fin 30) (Fin 30)) =
     Inr [[NaN]]
   \<and> map_sum id to_rows
       (calculate_intensity (of_rows [[Fin 0]]) (of_rows [[Fin 0]]) NaN (Fin 30) (Fin 30)) =
     Inr [[NaN]]"
  by (simp add: calculate_intensity_raises intensity_1x1 intensity_at_def phase_at_def
      wave_vector_x_def wave_vector_z_def np_deg2rad_def fsub_def square_def signed_inf_def)

section \<open>The grating parameters\<close>


lemma np_abs_nonneg_or_nan: "nonneg_or_nan (np_abs x)"
  by (cases x) (simp_all add: nonneg_or_nan_def)

lemma zero_frequency_infinite_period:
  "np_abs (fmul f (Fin 1000)) = Fin 0 \<Longrightarrow> np_abs (reciprocal_or_inf f) = PInf"
  by (cases f) (auto simp: reciprocal_or_inf_def signed_inf_def split: if_splits)

subsection \<open>Evaluations\<close>

text \<open>Wavelength 1, beams at 90 and -90 degrees, both indices 0.5.\<close>

lemma snell_half_index:
  "snell_angle (Fin (1/2)) (Fin (1/2)) (Fin 90) = Fin (pi/2)"
  "snell_angle (Fin (1/2)) (Fin (1/2)) (Fin (-90)) = Fin (- pi/2)"
  by (simp_all add: snell_angle_def np_deg2rad_Fin)

lemma d_air_half_index: "d_air (Fin 1) (Fin 90) (Fin (-90)) = Fin (- 1/2)"
  by (simp add: air_defs np_deg2rad_Fin)

lemma params_half_index:
  "calculate_grating_parameters (Fin 1) (Fin 90) (Fin (-90)) (Fin (1/2)) (Fin (1/2)) =
     (Inr \<lparr>air = \<lparr>period = Fin (1/2), period_y = Fin (1/2), period_z = PInf,
                  frequency = Fin 2000, frequency_y = Fin 2000, frequency_z = Fin 0,
                  tilt_angle = Fin 0, bragg_angle = NaN\<rparr>,
           medium = \<lparr>period = Fin 1, period_y = Fin 1, period_z = PInf,
                  frequency = Fin 1000, frequency_y = Fin 1000, frequency_z = Fin 0,
                  tilt_angle = Fin 0, bragg_angle = Fin (- 90)\<rparr>\<rparr>, [])"
  by (simp add: calculate_grating_parameters_returns returned_params_def returned_dict_def
      snell_half_index air_defs medium_defs np_deg2rad_Fin np_rad2deg_Fin np_rad2deg_NaN)

text \<open>
  Wavelength 0.5, beams at 90 and 0 degrees, from index 1.5 into index 1: the sine of the
  first refracted angle would be 1.5.
\<close>

lemma snell_total_reflection:
  "snell_angle (Fin (3/2)) (Fin 1) (Fin 90) = NaN"
  "snell_angle (Fin (3/2)) (Fin 1) (Fin 0) = Fin 0"
  by (simp_all add: snell_angle_def np_deg2rad_Fin)

lemma medium_total_reflection:
  "medium (returned_params (Fin (1/2)) (Fin 90) (Fin 0) (Fin (3/2)) (Fin 1)) =
     \<lparr>period = NaN, period_y = NaN, period_z = NaN, frequency = NaN, frequency_y = NaN,
      frequency_z = NaN, tilt_angle = NaN, bragg_angle = NaN\<rparr>"
  by (simp add: returned_params_def returned_dict_def snell_total_reflection medium_defs
      np_rad2deg_NaN np_rad2deg_Fin np_deg2rad_def)

text \<open>Wavelength 1, beams at 30 and 90 degrees, both indices 1.\<close>

lemma snell_unit_index:
  "snell_angle (Fin 1) (Fin 1) (Fin 30) = Fin (pi / 6)"
  "snell_angle (Fin 1) (Fin 1) (Fin 90) = Fin (pi / 2)"
  by (simp_all add: snell_angle_def np_deg2rad_Fin sin_30
      arcsin_sin [of "pi/6", simplified sin_30])

text \<open>Both beams at -30 degrees.\<close>

lemma negative_tilt:
  "tilt_angle (air (returned_params (Fin 1) (Fin (-30)) (Fin (-30)) (Fin 1) (Fin 1))) = Fin (- 30)"
  by (simp add: returned_params_def returned_dict_def psi_air_def)

subsection \<open>The Bragg angle\<close>



text \<open>
  C3, at wavelength 1, theta_R = 90 and theta_S = -90 degrees, n_1 = n_2 = 0.5: the
  argument of the arcsine for air is -2, outside [-1, 1]. The call returns the full record
  with NaN as the air Bragg angle, and it prints nothing: the NaN is the value of
  \<open>np.arcsin\<close>, no ValueError is raised, and the \<open>except\<close> clause with its message is
  not run.
\<close>

theorem bragg_handler_prints_nothing:
  "arcsin_arg_air (Fin 1) (Fin 90) (Fin (-90)) (Fin (1/2)) = Fin (- 2)
   \<and> snd (calculate_grating_parameters (Fin 1) (Fin 90) (Fin (-90)) (Fin (1/2)) (Fin (1/2))) = []
   \<and> fst (calculate_grating_parameters (Fin 1) (Fin 90) (Fin (-90)) (Fin (1/2)) (Fin (1/2))) =
       Inr \<lparr>air = \<lparr>period = Fin (1/2), period_y = Fin (1/2), period_z = PInf,
                  frequency = Fin 2000, frequency_y = Fin 2000, frequency_z = Fin 0,
                  tilt_angle = Fin 0, bragg_angle = NaN\<rparr>,
           medium = \<lparr>period = Fin 1, period_y = Fin 1, period_z = PInf,
                  frequency = Fin 1000, frequency_y = Fin 1000, frequency_z = Fin 0,
                  tilt_angle = Fin 0, bragg_angle = Fin (- 90)\<rparr>\<rparr>"
  by (simp add: params_half_index arcsin_arg_air_def d_air_half_index)

subsection \<open>Periods and frequencies\<close>

text \<open>
  C6, as amended: in both sub-records of a returned record and along each of the two axes,
  the two fields derive from the signed frequency \<open>f\<close> of that axis (lines 44, 45, 70
  and 71): the frequency field is \<open>abs(f * 1000)\<close>, and the period field is
  \<open>abs(1 / f)\<close> when \<open>f\<close> is not zero and infinite when it is. In particular the
  period field is infinite whenever the frequency field is zero.
\<close>

theorem period_frequency_reciprocal:
  assumes "calculate_grating_parameters wavelength theta_R theta_S n_1 n_2 = (Inr res, out)"
  shows "axis_fields (freq_y_air wavelength theta_R theta_S)
           (period_y (air res)) (frequency_y (air res))
       \<and> axis_fields (freq_z_air wavelength theta_R theta_S)
           (period_z (air res)) (frequency_z (air res))
       \<and> axis_fields
           (freq_y_medium wavelength n_2 (snell_angle n_1 n_2 theta_R) (snell_angle n_1 n_2 theta_S))
           (period_y (medium res)) (frequency_y (medium res))
       \<and> axis_fields
           (freq_z_medium wavelength n_2 (snell_angle n_1 n_2 theta_R) (snell_angle n_1 n_2 theta_S))
           (period_z (medium res)) (frequency_z (medium res))
       \<and> (\<forall>p \<in> {air res, medium res}.
            (frequency_y p = Fin 0 \<longrightarrow> period_y p = PInf) \<and>
            (frequency_z p = Fin 0 \<longrightarrow> period_z p = PInf))"
  using calculate_grating_parameters_cases(2) [OF assms]
  by (simp add: returned_params_def returned_dict_def axis_fields_def
      zero_frequency_infinite_period d_y_air_def d_z_air_def d_y_medium_def d_z_medium_def)

theorem period_frequency_reciprocal_witness:
  "axis_fields (freq_y_air (Fin 1) (Fin 90) (Fin (-90))) (Fin (1/2)) (Fin 2000)
   \<and> axis_fields (freq_z_air (Fin 1) (Fin 90) (Fin (-90))) PInf (Fin 0)"
  using period_frequency_reciprocal [OF params_half_index]
  by simp

text \<open>
  C6 as stated fails: at wavelength 0.5, theta_R = 90 and theta_S = 0 degrees, n_1 = 1.5
  and n_2 = 1 the medium period_y and frequency_y are both NaN. Their product is NaN, not
  1000, and the frequency is not zero.
\<close>

theorem period_frequency_not_reciprocal:
  "map_sum id medium
     (fst (calculate_grating_parameters (Fin (1/2)) (Fin 90) (Fin 0) (Fin (3/2)) (Fin 1))) =
     Inr \<lparr>period = NaN, period_y = NaN, period_z = NaN, frequency = NaN, frequency_y = NaN,
          frequency_z = NaN, tilt_angle = NaN, bragg_angle = NaN\<rparr>
   \<and> fmul NaN NaN \<noteq> Fin 1000 \<and> NaN \<noteq> Fin 0"
  by (simp add: calculate_grating_parameters_returns medium_total_reflection)

text \<open>
  C10, as amended: in both sub-records of a returned record, period, period_y, period_z,
  frequency, frequency_y and frequency_z are absolute values, so each is NaN or at least
  zero; tilt_angle and bragg_angle are the computed angles as they are, and there are
  inputs for which a tilt angle is negative and inputs for which a Bragg angle is negative.
\<close>

theorem magnitudes_not_negative:
  assumes "calculate_grating_parameters wavelength theta_R theta_S n_1 n_2 = (Inr res, out)"
  shows "(\<forall>p \<in> {air res, medium res}.
            \<forall>v \<in> {period p, period_y p, period_z p, frequency p, frequency_y p, frequency_z p}.
              nonneg_or_nan v)
       \<and> tilt_angle (air res) = psi_air theta_R theta_S
       \<and> tilt_angle (medium res) =
           psi_medium (snell_angle n_1 n_2 theta_R) (snell_angle n_1 n_2 theta_S)
       \<and> bragg_angle (air res) =
           np_rad2deg (np_arcsin (arcsin_arg_air wavelength theta_R theta_S n_1))
       \<and> bragg_angle (medium res) =
           np_rad2deg (np_arcsin (arcsin_arg_medium wavelength n_2
             (snell_angle n_1 n_2 theta_R) (snell_angle n_1 n_2 theta_S)))
       \<and> (\<exists>w r s a b res' out'. calculate_grating_parameters w r s a b = (Inr res', out')
             \<and> flt (tilt_angle (air res')) (Fin 0))
       \<and> (\<exists>w r s a b res' out'. calculate_grating_parameters w r s a b = (Inr res', out')
             \<and> flt (bragg_angle (medium res')) (Fin 0))"
proof -
  have "calculate_grating_parameters (Fin 1) (Fin (-30)) (Fin (-30)) (Fin 1) (Fin 1) =
          (Inr (returned_params (Fin 1) (Fin (-30)) (Fin (-30)) (Fin 1) (Fin 1)), [])"
    by (simp add: calculate_grating_parameters_returns)
  moreover
  have "flt (tilt_angle (air (returned_params (Fin 1) (Fin (-30)) (Fin (-30)) (Fin 1) (Fin 1))))
          (Fin 0)"
    by (simp add: negative_tilt flt_def)
  ultimately
  have tilt: "\<exists>w r s a b res' out'. calculate_grating_parameters w r s a b = (Inr res', out')
             \<and> flt (tilt_angle (air res')) (Fin 0)"
    by blast
  have bragg: "\<exists>w r s a b res' out'. calculate_grating_parameters w r s a b = (Inr res', out')
             \<and> flt (bragg_angle (medium res')) (Fin 0)"
    by (rule exI [of _ "Fin 1"], rule exI [of _ "Fin 90"], rule exI [of _ "Fin (-90)"],
        rule exI [of _ "Fin (1/2)"], rule exI [of _ "Fin (1/2)"])
       (simp add: params_half_index flt_def)
  from calculate_grating_parameters_cases(2) [OF assms] tilt bragg show ?thesis
    by (simp add: returned_params_def returned_dict_def np_abs_nonneg_or_nan)
qed

theorem magnitudes_not_negative_witness:
  "nonneg_or_nan (Fin (1/2)) \<and> nonneg_or_nan PInf \<and> nonneg_or_nan (Fin 2000)
   \<and> nonneg_or_nan (Fin 0) \<and> nonneg_or_nan (Fin 1) \<and> nonneg_or_nan (Fin 1000)"
  using magnitudes_not_negative [OF params_half_index, THEN conjunct1] by simp

text \<open>
  C10 as stated fails: at wavelength 0.5, theta_R = 90 and theta_S = 0 degrees, n_1 = 1.5
  and n_2 = 1 the medium period_y is NaN, which is not at least zero.
\<close>

theorem magnitude_nan:
  "map_sum id (period_y \<circ> medium)
     (fst (calculate_grating_parameters (Fin (1/2)) (Fin 90) (Fin 0) (Fin (3/2)) (Fin 1))) =
     Inr NaN
   \<and> \<not> fle (Fin 0) NaN"
  by (simp add: calculate_grating_parameters_returns medium_total_reflection)

subsection \<open>Tilt angles\<close>

text \<open>
  C7: in a returned record the air tilt_angle is \<open>(theta_S + theta_R) / 2\<close>, and the
  medium tilt_angle is the mean of the two refracted angles
  \<open>arcsin((n_1 / n_2) * sin(theta))\<close> in degrees.
\<close>

theorem tilt_angle_bisects:
  assumes "calculate_grating_parameters wavelength theta_R theta_S n_1 n_2 = (Inr res, out)"
  shows "tilt_angle (air res) = np_divide (fadd theta_S theta_R) (Fin 2)
       \<and> tilt_angle (medium res) =
           np_divide (fadd (np_rad2deg (snell_angle n_1 n_2 theta_S))
                           (np_rad2deg (snell_angle n_1 n_2 theta_R))) (Fin 2)"
  using calculate_grating_parameters_cases(2) [OF assms]
  by (simp add: returned_params_def returned_dict_def psi_air_def psi_medium_def np_degrees_def)

theorem tilt_angle_bisects_witness:
  "\<exists>res out.
     calculate_grating_parameters (Fin 1) (Fin 30) (Fin 90) (Fin 1) (Fin 1) = (Inr res, out)
     \<and> tilt_angle (air res) = Fin 60 \<and> tilt_angle (medium res) = Fin 60"
proof -
  have eq: "calculate_grating_parameters (Fin 1) (Fin 30) (Fin 90) (Fin 1) (Fin 1) =
          (Inr (returned_params (Fin 1) (Fin 30) (Fin 90) (Fin 1) (Fin 1)), [])"
    by (simp add: calculate_grating_parameters_returns)
  from tilt_angle_bisects [OF eq] show ?thesis
    by (simp add: eq snell_unit_index np_rad2deg_Fin)
qed

section \<open>The files of a run\<close>

lemma shape_get_size: "shape (fst get_size) = shape (snd get_size)"
  by (simp add: get_size_def np_meshgrid_def shape_def)

lemma create_graphs_returns:
  "n_1 \<noteq> Fin 0 \<Longrightarrow> n_2 \<noteq> Fin 0 \<Longrightarrow>
   create_graphs X Y I_air I_medium wavelength theta_R theta_S n_1 n_2 fs =
     Inr (fs(''results_table.png'' \<mapsto>
            Graphs_figure X Y I_air I_medium (np_divide wavelength n_1) (np_divide wavelength n_2)))"
  by (simp add: create_graphs_def py_truediv_def savefig_def)

text \<open>
  Whatever the arguments: once \<open>create_graphs\<close> has returned after
  \<open>create_table_image\<close>, the directory has gained the one name \<open>results_table.png\<close>, and
  the file of that name is not the table.
\<close>

lemma table_then_graphs:
  assumes "create_graphs X Y I_air I_medium wavelength theta_R theta_S n_1 n_2
             (create_table_image params n_1 n_2 fs) = Inr fs'"
  shows "dom fs' = insert ''results_table.png'' (dom fs)"
    and "map_option is_table (fs' ''results_table.png'') = Some False"
  using assms
  by (auto simp: create_graphs_def create_table_image_def py_truediv_def savefig_def
      split: if_splits)

text \<open>A run that no division stops.\<close>

lemma main_completes:
  assumes "wavelength \<noteq> Fin 0" and "n_1 \<noteq> Fin 0" and "n_2 \<noteq> Fin 0"
    and "np_divide wavelength n_2 \<noteq> Fin 0"
  shows "main wavelength theta_R theta_S n_1 n_2 fs =
           \<lparr>raised = None,
            written = fs(''results_table.png'' \<mapsto>
              Graphs_figure (fst get_size) (snd get_size)
                (elementwise (intensity_at wavelength theta_R theta_S)
                   (fst get_size) (snd get_size) (nrows (fst get_size)) (ncols (fst get_size)))
                (elementwise (intensity_at (np_divide wavelength n_2) theta_R theta_S)
                   (fst get_size) (snd get_size) (nrows (fst get_size)) (ncols (fst get_size)))
                (np_divide wavelength n_1) (np_divide wavelength n_2)),
            printed = []\<rparr>"
proof -
  obtain X Y where g: "get_size = (X, Y)"
    by (cases get_size)
  have sh: "shape X = shape Y"
    using shape_get_size by (simp add: g)
  show ?thesis
    using assms
    by (simp add: main_def g calculate_intensity_same_shape [OF _ sh] py_truediv_def
        calculate_grating_parameters_returns create_graphs_returns create_table_image_def
        savefig_def)
qed

text \<open>
  C4, for the run with wavelength 0.5, theta_R = 30 and theta_S = -30 degrees, n_1 = 1 and
  n_2 = 1.5 in an empty directory: the run ends without an exception, and the directory
  then holds one file, \<open>results_table.png\<close>. Both \<open>create_table_image\<close> and
  \<open>create_graphs\<close> have saved under that name, and the file holds the figure of
  \<open>create_graphs\<close>, which has replaced the table.
\<close>

theorem both_figures_saved_under_one_name:
  "raised (main (Fin (1/2)) (Fin 30) (Fin (-30)) (Fin 1) (Fin (3/2)) Map.empty) = None
   \<and> dom (written (main (Fin (1/2)) (Fin 30) (Fin (-30)) (Fin 1) (Fin (3/2)) Map.empty)) =
       {''results_table.png''}
   \<and> map_option is_table
       (written (main (Fin (1/2)) (Fin 30) (Fin (-30)) (Fin 1) (Fin (3/2)) Map.empty)
          ''results_table.png'') = Some False"
  by (simp add: main_completes)

end
